theory Spec2Isabelle
  imports Complex_Main "HOL-Library.Word"
begin

unbundle bit_operations_syntax

section \<open>Python values\<close>

text \<open>
  The detection modules pass their verdicts around as Python dictionaries keyed by
  strings. A dictionary is a partial map from keys to values; the values that occur
  are \<open>None\<close>, booleans, numbers, strings, lists and nested dictionaries.

  Python floats are modelled as exact reals: every threshold comparison and every
  confidence formula below is read over \<open>real\<close>. Integer literals that Python mixes
  with floats (\<open>"confidence": 0\<close>) are the same number.
\<close>

datatype pyval =
    PNone
  | PBool bool
  | PNum real
  | PStr string
  | PList "pyval list"
  | PDict "string \<Rightarrow> pyval option"

type_synonym dict = "string \<Rightarrow> pyval option"

text \<open>An exception is kept with its class and its message (\<open>str(e)\<close>).\<close>

datatype py_exception =
    ValueError string
  | ZeroDivisionError string
  | CvError string
  | OtherException string

fun str_exc :: "py_exception \<Rightarrow> string" where
  "str_exc (ValueError m) = m"
| "str_exc (ZeroDivisionError m) = m"
| "str_exc (CvError m) = m"
| "str_exc (OtherException m) = m"

text \<open>\<open>d.get(key, False)\<close> read as a truth value, and \<open>d.get(key, 0)\<close> read as a number.\<close>

definition get_flag :: "dict \<Rightarrow> string \<Rightarrow> bool" where
  "get_flag d k = (case d k of Some (PBool b) \<Rightarrow> b | _ \<Rightarrow> False)"

definition get_num :: "dict \<Rightarrow> string \<Rightarrow> real" where
  "get_num d k = (case d k of Some (PNum x) \<Rightarrow> x | _ \<Rightarrow> 0)"

text \<open>
  \<open>round(x, n)\<close>: the nearest multiple of \<open>10^-n\<close>, a tie going to the even
  neighbour. \<open>int(x)\<close> truncates towards zero.
\<close>

definition round_half_even :: "real \<Rightarrow> int" where
  "round_half_even y =
     (let f = \<lfloor>y\<rfloor>; d = y - of_int f in
      if d < 1 / 2 then f
      else if d > 1 / 2 then f + 1
      else if even f then f else f + 1)"

definition py_round :: "real \<Rightarrow> nat \<Rightarrow> real" where
  "py_round x n = of_int (round_half_even (x * 10 ^ n)) / 10 ^ n"

definition py_int :: "real \<Rightarrow> int" where
  "py_int x = (if 0 \<le> x then \<lfloor>x\<rfloor> else \<lceil>x\<rceil>)"


section \<open>Indicator counting: \<open>advanced_lsb_detector.py\<close>\<close>

text \<open>
  \<open>composite_score\<close> counts how many of the four statistics cross their thresholds and
  reports whether at least three did.
\<close>

definition composite_score :: "real \<Rightarrow> real \<Rightarrow> real \<Rightarrow> real \<Rightarrow> real \<Rightarrow> bool" where
  "composite_score chi_p entropy rs_reg rs_sing slope_changes =
     (let score = (0::int);
          score = (if chi_p < 0.05 then score + 1 else score);
          score = (if entropy > 0.9 then score + 1 else score);
          score = (if \<bar>rs_reg - rs_sing\<bar> < 0.05 then score + 1 else score);
          score = (if slope_changes > 100 then score + 1 else score)
      in score \<ge> 3)"

text \<open>
  The statistics \<open>analyze_image\<close> computes inside its \<open>try\<close> block come from PIL,
  OpenCV, SciPy and scikit-image. They are the input of the model: either the
  block raised (loading or a test failed) or it produced the five statistics and
  the image format.
\<close>

record battery =
  b_chi_p :: real
  b_entropy :: real
  b_rs_reg :: real
  b_rs_sing :: real
  b_slope :: real
  b_format :: string

definition LOSSY_FORMATS :: "string list" where
  "LOSSY_FORMATS = [''.jpg'', ''.jpeg'', ''.webp'']"

text \<open>\<open>indicators = sum([1 if ... else 0, ...])\<close> of \<open>analyze_image\<close>.\<close>

definition indicators :: "battery \<Rightarrow> int" where
  "indicators b =
     (if b_chi_p b < 0.05 then 1 else 0)
   + (if b_entropy b > 0.9 then 1 else 0)
   + (if \<bar>b_rs_reg b - b_rs_sing b\<bar> < 0.05 then 1 else 0)
   + (if b_slope b > 100 then 1 else 0)"

definition detector_confidence :: "battery \<Rightarrow> bool \<Rightarrow> real" where
  "detector_confidence b suspicious =
     (if suspicious
      then (if indicators b \<ge> 3
            then 0.6 + of_int (indicators b - 3) * 0.35 / 1.0
            else 0.0)
      else 0.0)"

definition detector_details :: "battery \<Rightarrow> dict" where
  "detector_details b =
     [''chi_square_p'' \<mapsto> PNum (py_round (b_chi_p b) 5),
      ''lsb_entropy'' \<mapsto> PNum (py_round (b_entropy b) 4),
      ''rs_regular'' \<mapsto> PNum (py_round (b_rs_reg b) 4),
      ''rs_singular'' \<mapsto> PNum (py_round (b_rs_sing b) 4),
      ''histogram_slope_changes'' \<mapsto> PNum (of_int (py_int (b_slope b))),
      ''image_format'' \<mapsto> PStr (b_format b)]"

definition detector_analyze_image :: "py_exception + battery \<Rightarrow> dict" where
  "detector_analyze_image outcome =
     (case outcome of
        Inr b \<Rightarrow>
          (let suspicious =
                 composite_score (b_chi_p b) (b_entropy b) (b_rs_reg b) (b_rs_sing b) (b_slope b);
               notes = (if b_format b \<in> set LOSSY_FORMATS
                        then [PStr ''Lossy format; LSB steganography less likely.''] else []);
               confidence = detector_confidence b suspicious
           in [''detected'' \<mapsto> PBool suspicious,
               ''confidence'' \<mapsto> PNum (py_round confidence 2),
               ''method'' \<mapsto> PStr ''Advanced LSB Analysis'',
               ''details'' \<mapsto> PDict (detector_details b),
               ''detection_methods'' \<mapsto>
                  PList [PStr ''Chi-square test'', PStr ''RS analysis'',
                         PStr ''Entropy analysis'', PStr ''Histogram analysis''],
               ''notes'' \<mapsto> PList notes])
      | Inl e \<Rightarrow>
          [''detected'' \<mapsto> PBool False,
           ''confidence'' \<mapsto> PNum 0.0,
           ''method'' \<mapsto> PStr ''Advanced LSB Analysis'',
           ''error'' \<mapsto> PStr (str_exc e)])"


section \<open>The statistical tests\<close>

subsection \<open>Arrays and OpenCV's grayscale conversion\<close>

text \<open>
  A decoded raster is a NumPy array of unsigned 8-bit values: two-dimensional for a
  grayscale plane (rows of values), three-dimensional for a colour image (rows of
  pixels, each a list of channel values). \<open>len(image.shape) == 3\<close> tells them apart.
\<close>

type_synonym plane = "8 word list list"

datatype image = Gray2D plane | Color3D "8 word list list list"

text \<open>The last component of a colour image's shape: its number of channels.\<close>

definition channels :: "8 word list list list \<Rightarrow> nat" where
  "channels rws = (case rws of [] \<Rightarrow> 0 | r # _ \<Rightarrow> (case r of [] \<Rightarrow> 0 | p # _ \<Rightarrow> length p))"

text \<open>
  \<open>cv2.cvtColor(image, cv2.COLOR_BGR2GRAY)\<close> accepts an image of three or four
  channels and raises \<open>cv2.error\<close> on anything else, a two-dimensional plane
  included. The luminance of one pixel is OpenCV's business: \<open>bgr2gray\<close> is a
  parameter.
\<close>

definition cvtColor_BGR2GRAY :: "(8 word list \<Rightarrow> 8 word) \<Rightarrow> image \<Rightarrow> py_exception + plane" where
  "cvtColor_BGR2GRAY bgr2gray img =
     (case img of
        Gray2D g \<Rightarrow> Inl (CvError ''Invalid number of channels in input image'')
      | Color3D rws \<Rightarrow>
          (if channels rws = 3 \<or> channels rws = 4
           then Inr (map (map bgr2gray) rws)
           else Inl (CvError ''Invalid number of channels in input image'')))"

text \<open>\<open>gray & 1\<close>, elementwise.\<close>

definition and1 :: "plane \<Rightarrow> plane" where
  "and1 gray = map (map (\<lambda>v. v AND 1)) gray"

subsection \<open>Bit-plane extraction\<close>

text \<open>
  \<open>extract_lsb_plane\<close> of \<open>advanced_steganography.py\<close> and
  \<open>advanced_lsb_detector.py\<close>: the conversion is applied to whatever comes in, and
  its exception propagates.
\<close>

definition legacy_extract_lsb_plane :: "(8 word list \<Rightarrow> 8 word) \<Rightarrow> image \<Rightarrow> py_exception + plane" where
  "legacy_extract_lsb_plane bgr2gray img =
     (case cvtColor_BGR2GRAY bgr2gray img of
        Inl e \<Rightarrow> Inl e
      | Inr gray \<Rightarrow> Inr (and1 gray))"

text \<open>
  \<open>extract_lsb_plane\<close> of \<open>advanced_media_steganography.py\<close>: a plane that is
  already grayscale is used as it is, and any exception gives a 50 by 50 plane of
  zeros.
\<close>

definition extract_lsb_plane :: "(8 word list \<Rightarrow> 8 word) \<Rightarrow> image \<Rightarrow> plane" where
  "extract_lsb_plane bgr2gray img =
     (case (case img of
              Color3D rws \<Rightarrow> cvtColor_BGR2GRAY bgr2gray img
            | Gray2D g \<Rightarrow> Inr g) of
        Inr gray \<Rightarrow> and1 gray
      | Inl e \<Rightarrow> replicate 50 (replicate 50 0))"

subsection \<open>Chi-square test\<close>

text \<open>\<open>np.unique(flat, return_counts=True)\<close>: the distinct values in order, and how often each occurs.\<close>

definition unique_values :: "'a::linorder list \<Rightarrow> 'a list" where
  "unique_values flat = sort (remdups flat)"

definition unique_counts :: "'a::linorder list \<Rightarrow> nat list" where
  "unique_counts flat = map (count_list flat) (unique_values flat)"

text \<open>
  \<open>scipy.stats.chisquare(f_obs, f_exp)\<close> on one-dimensional arrays. The two arrays
  are broadcast to a common shape (NumPy's rule: equal lengths, or one of them of
  length one), which raises \<open>ValueError\<close> when they cannot be; the sums of the two
  must then agree to a relative tolerance of \<open>1e-8\<close>, or \<open>ValueError\<close> is raised;
  the statistic is the sum of \<open>(obs - exp)^2 / exp\<close> and the p-value is the
  chi-square survival function at the statistic with \<open>k - 1\<close> degrees of freedom.
  The survival function \<open>sf\<close> is a parameter. The statistic is read over the reals,
  which is what NumPy computes whenever every expected frequency is positive; the
  callers below never pass a zero expected frequency past the two checks.
\<close>

definition broadcast_to :: "real list \<Rightarrow> nat \<Rightarrow> real list" where
  "broadcast_to xs k = (if length xs = k then xs else replicate k (hd xs))"

definition sums_disagree :: "real \<Rightarrow> real \<Rightarrow> bool" where
  "sums_disagree so se =
     (let d = \<bar>so - se\<bar>; m = min so se in
      if m = 0 then d \<noteq> 0 else d / m > 1 / 10 ^ 8)"

definition chisquare :: "(real \<Rightarrow> int \<Rightarrow> real) \<Rightarrow> real list \<Rightarrow> real list \<Rightarrow> py_exception + real \<times> real" where
  "chisquare sf f_obs f_exp =
     (let m = length f_obs; n = length f_exp in
      if m \<noteq> n \<and> m \<noteq> 1 \<and> n \<noteq> 1
      then Inl (ValueError ''shape mismatch: objects cannot be broadcast to a single shape'')
      else
        (let k = (if m = 1 then n else m);
             obs = broadcast_to f_obs k;
             expd = broadcast_to f_exp k
         in if sums_disagree (sum_list obs) (sum_list expd)
            then Inl (ValueError ''the sum of the observed frequencies must agree with the sum of the expected frequencies'')
            else (let stat = sum_list (map2 (\<lambda>ob ex. (ob - ex)\<^sup>2 / ex) obs expd)
                  in Inr (stat, sf stat (int k - 1)))))"

text \<open>
  \<open>chi_square_test\<close> of \<open>advanced_steganography.py\<close> and
  \<open>advanced_lsb_detector.py\<close>: two expected frequencies, whatever the number of
  distinct values, and no exception handler.
\<close>

definition legacy_chi_square_test :: "(real \<Rightarrow> int \<Rightarrow> real) \<Rightarrow> 'a::linorder list list \<Rightarrow> py_exception + real \<times> real" where
  "legacy_chi_square_test sf lsb_plane =
     (let flat = concat lsb_plane;
          counts = unique_counts flat;
          expected = replicate 2 (real (length flat) / 2)
      in chisquare sf (map real counts) expected)"

text \<open>
  \<open>chi_square_test\<close> of \<open>advanced_media_steganography.py\<close>: one expected frequency
  per distinct value (\<open>len(flat) / len(values)\<close> raises \<open>ZeroDivisionError\<close> on an
  empty array), and every exception gives \<open>(0, 1.0)\<close>.
\<close>

definition chi_square_test :: "(real \<Rightarrow> int \<Rightarrow> real) \<Rightarrow> 'a::linorder list list \<Rightarrow> real \<times> real" where
  "chi_square_test sf lsb_plane =
     (let flat = concat lsb_plane;
          vals = unique_values flat;
          counts = unique_counts flat
      in case (if length vals = 0 then Inl (ZeroDivisionError ''division by zero'')
               else chisquare sf (map real counts)
                      (replicate (length vals) (real (length flat) / real (length vals)))) of
           Inr r \<Rightarrow> r
         | Inl e \<Rightarrow> (0, 1.0))"

subsection \<open>RS analysis on 2 by 2 blocks\<close>

text \<open>\<open>range(0, stop, 2)\<close>.\<close>

definition range2 :: "int \<Rightarrow> nat list" where
  "range2 stop = map (\<lambda>k. 2 * k) [0 ..< nat ((stop + 1) div 2)]"

text \<open>\<open>np.var\<close> of the values of an array: the mean of the squared deviations from the mean.\<close>

definition np_var :: "real list \<Rightarrow> real" where
  "np_var xs =
     (let n = real (length xs); mean = sum_list xs / n
      in sum_list (map (\<lambda>x. (x - mean)\<^sup>2) xs) / n)"

definition mask :: plane where
  "mask = [[0, 0], [0, 1]]"

definition mask_flip :: "plane \<Rightarrow> plane \<Rightarrow> plane" where
  "mask_flip block msk = map2 (map2 (\<lambda>v m. v XOR m)) block msk"

definition plane_var :: "plane \<Rightarrow> real" where
  "plane_var block = np_var (map (\<lambda>v. real (unat v)) (concat block))"

text \<open>The shape of an array: rows and columns.\<close>

definition n_rows :: "plane \<Rightarrow> nat" where
  "n_rows gray = length gray"

definition n_cols :: "plane \<Rightarrow> nat" where
  "n_cols gray = (case gray of [] \<Rightarrow> 0 | r # _ \<Rightarrow> length r)"

text \<open>
  The body of the inner loop on the counters \<open>(total, regular, singular)\<close>:
  the block \<open>gray[i:i+2, j:j+2]\<close> is skipped unless its shape is \<open>(2, 2)\<close>.
\<close>

definition rs_block :: "plane \<Rightarrow> nat \<Rightarrow> nat \<Rightarrow> nat \<times> nat \<times> nat \<Rightarrow> nat \<times> nat \<times> nat" where
  "rs_block gray i j acc =
     (case acc of (total_n, regular, singular) \<Rightarrow>
       (let block = map (\<lambda>r. take 2 (drop j r)) (take 2 (drop i gray)) in
        if length block = 2 \<and> list_all (\<lambda>r. length r = 2) block
        then
          (let flipped = mask_flip block mask;
               orig_var = plane_var block;
               flip_var = plane_var flipped
           in if flip_var > orig_var then (total_n + 1, regular + 1, singular)
              else if flip_var < orig_var then (total_n + 1, regular, singular + 1)
              else (total_n + 1, regular, singular))
        else (total_n, regular, singular)))"

definition rs_counts :: "plane \<Rightarrow> nat \<times> nat \<times> nat" where
  "rs_counts gray =
     fold (\<lambda>i acc. fold (\<lambda>j acc'. rs_block gray i j acc') (range2 (int (n_cols gray) - 1)) acc)
          (range2 (int (n_rows gray) - 1)) (0, 0, 0)"

definition rs_analysis :: "plane \<Rightarrow> real \<times> real" where
  "rs_analysis gray =
     (case rs_counts gray of (total_n, regular, singular) \<Rightarrow>
        (if total_n > 0 then real regular / real total_n else 0,
         if total_n > 0 then real singular / real total_n else 0))"


section \<open>Media analysis: \<open>advanced_media_steganography.py\<close>\<close>

subsection \<open>Audio\<close>

text \<open>
  \<open>analyze_audio_lsb\<close>. Decoding the file (pydub), the chi-square p-value of the
  samples' least significant bits and their Shannon entropy are computed inside the
  \<open>try\<close> block by libraries: the input of the model is what that part produced,
  an exception or the pair \<open>(chi_p, entropy_val)\<close>.
\<close>

definition analyze_audio_lsb :: "py_exception + real \<times> real \<Rightarrow> dict" where
  "analyze_audio_lsb outcome =
     (case outcome of
        Inr (chi_p, entropy_val) \<Rightarrow>
          (let is_suspicious = (chi_p < 0.05 \<or> entropy_val > 0.97);
               confidence = (0.5::real);
               (confidence, is_suspicious) =
                 (if chi_p < 0.01 \<and> entropy_val > 0.98 then (0.9, is_suspicious)
                  else if chi_p < 0.05 \<and> entropy_val > 0.97 then (0.7, is_suspicious)
                  else if chi_p < 0.1 \<and> entropy_val > 0.95 then (0.5, is_suspicious)
                  else (0.3, False))
           in [''hasSteganography'' \<mapsto> PBool is_suspicious,
               ''confidence'' \<mapsto> PNum confidence,
               ''chi_square_p'' \<mapsto> PNum chi_p,
               ''lsb_entropy'' \<mapsto> PNum entropy_val,
               ''detectionMethods'' \<mapsto>
                  PList [PStr ''LSB Analysis'', PStr ''Chi-Square Test'', PStr ''Entropy Analysis'']])
      | Inl e \<Rightarrow>
          [''hasSteganography'' \<mapsto> PBool False,
           ''confidence'' \<mapsto> PNum 0,
           ''error'' \<mapsto> PStr (str_exc e)])"

subsection \<open>Video\<close>

text \<open>
  The frame loop of \<open>analyze_video\<close>. Each extracted frame contributes the
  chi-square p-value and the entropy of its bit plane, or the exception its
  analysis raised, which leaves the loop. The loop counts the suspicious frames and
  collects the two statistics.
\<close>

fun frame_loop ::
  "(py_exception + real \<times> real) list \<Rightarrow> nat \<Rightarrow> real list \<Rightarrow> real list
     \<Rightarrow> py_exception + nat \<times> real list \<times> real list" where
  "frame_loop [] suspicious_frames chi_p_values entropy_values =
     Inr (suspicious_frames, chi_p_values, entropy_values)"
| "frame_loop (Inl e # frames) suspicious_frames chi_p_values entropy_values = Inl e"
| "frame_loop (Inr (chi_p, entropy_val) # frames) suspicious_frames chi_p_values entropy_values =
     frame_loop frames
       (if chi_p < 0.05 \<or> entropy_val > 0.97 then suspicious_frames + 1 else suspicious_frames)
       (chi_p_values @ [chi_p]) (entropy_values @ [entropy_val])"

text \<open>The four bands that map the ratio of suspicious frames to a verdict and a confidence.\<close>

definition ratio_bands :: "real \<Rightarrow> bool \<times> real" where
  "ratio_bands suspicious_ratio =
     (if suspicious_ratio > 0.5 then (True, 0.7 + (suspicious_ratio - 0.5) * 0.6)
      else if suspicious_ratio > 0.3 then (True, 0.5 + (suspicious_ratio - 0.3) * 2.0)
      else if suspicious_ratio > 0.1 then (True, 0.3 + (suspicious_ratio - 0.1) * 2.0)
      else (suspicious_ratio > 0, suspicious_ratio * 3.0))"

definition np_mean :: "real list \<Rightarrow> pyval" where
  "np_mean xs = (if xs = [] then PNone else PNum (sum_list xs / real (length xs)))"

text \<open>
  \<open>analyze_video\<close>. \<open>frames\<close> is what \<open>extract_frames_from_video\<close> returned, frame
  by frame as above; \<open>audio\<close> is \<open>None\<close> when no audio track could be extracted and
  otherwise what decoding and testing that track produced.
\<close>

definition analyze_video ::
  "(py_exception + real \<times> real) list \<Rightarrow> (py_exception + real \<times> real) option \<Rightarrow> dict" where
  "analyze_video frames audio =
     (if frames = []
      then [''hasSteganography'' \<mapsto> PBool False,
            ''confidence'' \<mapsto> PNum 0,
            ''error'' \<mapsto> PStr ''No frames could be extracted from video'']
      else
        (case frame_loop frames 0 [] [] of
           Inl e \<Rightarrow>
             [''hasSteganography'' \<mapsto> PBool False,
              ''confidence'' \<mapsto> PNum 0,
              ''error'' \<mapsto> PStr (str_exc e)]
         | Inr (suspicious_frames, chi_p_values, entropy_values) \<Rightarrow>
             (let audio_result = map_option analyze_audio_lsb audio;
                  suspicious_ratio = real suspicious_frames / real (length frames);
                  (has_steg, confidence) = ratio_bands suspicious_ratio;
                  (has_steg, confidence) =
                    (case audio_result of
                       None \<Rightarrow> (has_steg, confidence)
                     | Some r \<Rightarrow>
                         (if get_flag r ''hasSteganography''
                          then (True, (confidence * 2 + get_num r ''confidence'') / 3)
                          else (has_steg, confidence)));
                  confidence = min confidence 1.0
              in [''hasSteganography'' \<mapsto> PBool has_steg,
                  ''confidence'' \<mapsto> PNum confidence,
                  ''framesAnalyzed'' \<mapsto> PNum (real (length frames)),
                  ''suspiciousFrames'' \<mapsto> PNum (real suspicious_frames),
                  ''avgChiSquareP'' \<mapsto> np_mean chi_p_values,
                  ''avgLsbEntropy'' \<mapsto> np_mean entropy_values,
                  ''audioSteganography'' \<mapsto>
                     (case audio_result of None \<Rightarrow> PNone | Some r \<Rightarrow> PDict r),
                  ''detectionMethods'' \<mapsto>
                     PList [PStr ''Frame LSB Analysis'', PStr ''Chi-Square Test'',
                            PStr ''Entropy Analysis'']])))"

subsection \<open>Images: weighted indicator scoring\<close>

text \<open>
  \<open>analyze_image\<close>. The loader never raises (it falls back to a blank image); the
  image it returns may be empty, and otherwise the \<open>try\<close> block either raises
  (OpenCV's conversion or resizing) or produces the chi-square p-value, the
  entropy and the two RS fractions.
\<close>

datatype image_outcome =
    EmptyImage
  | Analysed "py_exception + real \<times> real \<times> real \<times> real"

definition chi_band :: "real \<Rightarrow> int \<times> real \<times> string list" where
  "chi_band chi_p =
     (if chi_p < 0.001 then (3, 0.4, [''Chi-Square Test''])
      else if chi_p < 0.01 then (2, 0.3, [''Chi-Square Test''])
      else if chi_p < 0.05 then (1, 0.2, [''Chi-Square Test''])
      else (0, 0, []))"

definition entropy_band :: "real \<Rightarrow> int \<times> real \<times> string list" where
  "entropy_band entropy_val =
     (if entropy_val > 0.98 then (3, 0.3, [''Entropy Analysis''])
      else if entropy_val > 0.95 then (2, 0.2, [''Entropy Analysis''])
      else if entropy_val > 0.9 then (1, 0.1, [''Entropy Analysis''])
      else (0, 0, []))"

definition rs_band :: "real \<Rightarrow> int \<times> real \<times> string list" where
  "rs_band rs_diff =
     (if rs_diff < 0.05 then (2, 0.2, [''RS Analysis''])
      else if rs_diff < 0.1 then (1, 0.1, [''RS Analysis''])
      else (0, 0, []))"

definition analyze_image :: "image_outcome \<Rightarrow> dict" where
  "analyze_image outcome =
     (case outcome of
        EmptyImage \<Rightarrow>
          [''hasSteganography'' \<mapsto> PBool False,
           ''confidence'' \<mapsto> PNum 0,
           ''error'' \<mapsto> PStr ''Failed to load image data'']
      | Analysed (Inl e) \<Rightarrow>
          [''hasSteganography'' \<mapsto> PBool False,
           ''confidence'' \<mapsto> PNum 0,
           ''error'' \<mapsto> PStr (str_exc e)]
      | Analysed (Inr (chi_p, entropy_val, rs_reg, rs_sing)) \<Rightarrow>
          (let (s1, c1, m1) = chi_band chi_p;
               (s2, c2, m2) = entropy_band entropy_val;
               rs_diff = \<bar>rs_reg - rs_sing\<bar>;
               (s3, c3, m3) = rs_band rs_diff;
               indicator_score = s1 + s2 + s3;
               confidence_score = c1 + c2 + c3;
               detection_methods = m1 @ m2 @ m3;
               has_steganography = (indicator_score \<ge> 3);
               confidence_score =
                 (if confidence_score > 0 then min (0.3 + confidence_score) 1.0
                  else confidence_score)
           in [''hasSteganography'' \<mapsto> PBool has_steganography,
               ''confidence'' \<mapsto> PNum confidence_score,
               ''chi_square_p'' \<mapsto> PNum chi_p,
               ''lsb_entropy'' \<mapsto> PNum entropy_val,
               ''rs_regular'' \<mapsto> PNum rs_reg,
               ''rs_singular'' \<mapsto> PNum rs_sing,
               ''indicator_score'' \<mapsto> PNum (of_int indicator_score),
               ''detectionMethods'' \<mapsto> PList (map PStr detection_methods)]))"


subsection \<open>Dispatch by file extension\<close>

text \<open>
  \<open>os.path.splitext\<close> (POSIX): the extension starts at the last dot of the last
  path component, unless that component has nothing but dots before it.
  \<open>rfind\<close> gives the last index of a character, or \<open>-1\<close>.
\<close>

fun rfind_from :: "string \<Rightarrow> char \<Rightarrow> int \<Rightarrow> int \<Rightarrow> int" where
  "rfind_from [] c i found = found"
| "rfind_from (x # xs) c i found = rfind_from xs c (i + 1) (if x = c then i else found)"

definition rfind :: "string \<Rightarrow> char \<Rightarrow> int" where
  "rfind p c = rfind_from p c 0 (- 1)"

text \<open>
  The loop of \<open>_splitext\<close> that skips leading dots: whether some character from
  \<open>filenameIndex\<close> up to \<open>dotIndex\<close> is not a dot.
\<close>

function has_stem :: "string \<Rightarrow> int \<Rightarrow> int \<Rightarrow> bool" where
  "has_stem p filenameIndex dotIndex =
     (if filenameIndex < dotIndex
      then (if p ! nat filenameIndex \<noteq> CHR ''.'' then True
            else has_stem p (filenameIndex + 1) dotIndex)
      else False)"
  by pat_completeness auto
termination
  by (relation "measure (\<lambda>(p, filenameIndex, dotIndex). nat (dotIndex - filenameIndex))") auto

declare has_stem.simps [simp del]

definition splitext :: "string \<Rightarrow> string \<times> string" where
  "splitext p =
     (let sepIndex = rfind p CHR ''/'';
          dotIndex = rfind p CHR ''.''
      in if dotIndex > sepIndex \<and> has_stem p (sepIndex + 1) dotIndex
         then (take (nat dotIndex) p, drop (nat dotIndex) p)
         else (p, []))"

definition basename :: "string \<Rightarrow> string" where
  "basename p = drop (nat (rfind p CHR ''/'' + 1)) p"

text \<open>
  \<open>ext = os.path.splitext(file_name)[-1].lower()\<close>. Python's \<open>str.lower\<close> follows
  Unicode: besides the letters \<open>A\<close> to \<open>Z\<close> it changes characters outside ASCII
  (the KELVIN SIGN becomes \<open>k\<close>). It is a parameter, \<open>str_lower\<close>, of the
  dispatcher.
\<close>

definition extension :: "(string \<Rightarrow> string) \<Rightarrow> string \<Rightarrow> string" where
  "extension str_lower file_name = str_lower (snd (splitext file_name))"

text \<open>
  On a name made of ASCII characters \<open>str.lower\<close> changes the letters \<open>A\<close> to
  \<open>Z\<close> and nothing else: \<open>ascii_lower\<close>, for worked examples on such names.
\<close>

definition lower_char :: "char \<Rightarrow> char" where
  "lower_char c =
     (let n = (of_char c :: nat) in if 65 \<le> n \<and> n \<le> 90 then char_of (n + 32) else c)"

definition ascii_lower :: "string \<Rightarrow> string" where
  "ascii_lower s = map lower_char s"

definition AUDIO_EXTENSIONS :: "string list" where
  "AUDIO_EXTENSIONS = [''.mp3'', ''.wav'', ''.aac'', ''.flac'', ''.ogg'', ''.amr'']"

definition VIDEO_EXTENSIONS :: "string list" where
  "VIDEO_EXTENSIONS = [''.mp4'', ''.avi'', ''.mkv'', ''.mov'', ''.webm'', ''.flv'']"

definition IMAGE_EXTENSIONS :: "string list" where
  "IMAGE_EXTENSIONS =
     [''.jpg'', ''.jpeg'', ''.png'', ''.gif'', ''.webp'', ''.bmp'', ''.tiff'', ''.tif'',
      ''.ico'', ''.heic'', ''.heif'', ''.svg'', ''.avif'']"

text \<open>
  What the outside world would answer for the bytes of one file, should the
  dispatcher ask: whether writing the temporary file fails, and what each of the
  three analyses would find in it.
\<close>

record media_file =
  save_fails :: "py_exception option"
  audio_outcome :: "py_exception + real \<times> real"
  video_frames :: "(py_exception + real \<times> real) list"
  video_audio :: "(py_exception + real \<times> real) option"
  image_result :: image_outcome

text \<open>The steps the dispatcher takes on the file, in order.\<close>

datatype action =
    SaveTempFile string
  | AnalyzeAudio
  | AnalyzeVideo
  | AnalyzeImage
  | RemoveTempFile

definition detect_media_steganography ::
  "(string \<Rightarrow> string) \<Rightarrow> media_file \<Rightarrow> string \<Rightarrow> dict \<times> action list" where
  "detect_media_steganography str_lower file_data file_name =
     (let ext = extension str_lower file_name;
          failed = (\<lambda>e. [''hasSteganography'' \<mapsto> PBool False,
                        ''confidence'' \<mapsto> PNum 0,
                        ''error'' \<mapsto> PStr (''Analysis failed: '' @ str_exc e),
                        ''mediaType'' \<mapsto> PStr ''unknown''])
      in if ext \<in> set AUDIO_EXTENSIONS then
           (case save_fails file_data of
              Some e \<Rightarrow> (failed e, [SaveTempFile ext])
            | None \<Rightarrow>
                ((analyze_audio_lsb (audio_outcome file_data))(''mediaType'' \<mapsto> PStr ''audio''),
                 [SaveTempFile ext, AnalyzeAudio, RemoveTempFile]))
         else if ext \<in> set VIDEO_EXTENSIONS then
           (case save_fails file_data of
              Some e \<Rightarrow> (failed e, [SaveTempFile ext])
            | None \<Rightarrow>
                ((analyze_video (video_frames file_data) (video_audio file_data))
                    (''mediaType'' \<mapsto> PStr ''video''),
                 [SaveTempFile ext, AnalyzeVideo, RemoveTempFile]))
         else if ext \<in> set IMAGE_EXTENSIONS then
           ((analyze_image (image_result file_data))(''mediaType'' \<mapsto> PStr ''image''),
            [AnalyzeImage])
         else
           ([''hasSteganography'' \<mapsto> PBool False,
             ''confidence'' \<mapsto> PNum 0,
             ''error'' \<mapsto> PStr (''Unsupported file format: '' @ ext),
             ''mediaType'' \<mapsto> PStr ''unknown''],
            []))"

subsection \<open>The function called from the command line\<close>

text \<open>
  \<open>detect_steganography_in_media\<close> reads the file path from \<open>sys.argv\<close>. With
  fewer than two arguments it returns a JSON string that holds an error message
  and nothing else; otherwise it reads the data (which may raise), calls the
  dispatcher, prints the result as JSON (which may raise) and returns it. Every
  exception gives the error dictionary. The JSON string is kept as the dictionary
  it encodes.
\<close>

datatype api_return = ReturnedDict dict | ReturnedJson dict

definition detect_steganography_in_media ::
  "(string \<Rightarrow> string) \<Rightarrow> string list \<Rightarrow> py_exception + media_file \<Rightarrow> py_exception option
     \<Rightarrow> api_return" where
  "detect_steganography_in_media str_lower argv file_data print_fails =
     (if length argv < 2
      then ReturnedJson [''error'' \<mapsto> PStr ''Missing required argument: file path'']
      else
        (let file_path = argv ! 1;
             file_name = basename file_path;
             error_result = (\<lambda>e. [''hasSteganography'' \<mapsto> PBool False,
                                     ''confidence'' \<mapsto> PNum 0,
                                     ''error'' \<mapsto> PStr (str_exc e)])
         in case file_data of
              Inl e \<Rightarrow> ReturnedDict (error_result e)
            | Inr d \<Rightarrow>
                (let result = fst (detect_media_steganography str_lower d file_name)
                 in case print_fails of
                      Some e \<Rightarrow> ReturnedDict (error_result e)
                    | None \<Rightarrow> ReturnedDict result)))"


section \<open>Aggregation of several detectors: \<open>steganography_service.py\<close>\<close>

text \<open>
  \<open>detect_lsb\<close> derives three statistics from the pixels (the largest anomaly of
  the LSB frequencies, the average chi-square value, the ratio of LSB transitions)
  and scores them; an exception anywhere gives an error dictionary with
  \<open>detected = False\<close> and \<open>confidence = 0.0\<close>.
\<close>

record lsb_stats =
  lsb_frequencies :: "real list"
  max_anomaly :: real
  avg_chi_square :: real
  transition_ratio :: real
  image_size :: string
  color_mode :: string

definition detect_lsb :: "py_exception + lsb_stats \<Rightarrow> dict" where
  "detect_lsb outcome =
     (case outcome of
        Inr st \<Rightarrow>
          (let anomaly_weight = 0.4;
               chi_square_weight = 0.4;
               transition_weight = 0.2;
               chi_score = min 1.0 (avg_chi_square st / 20);
               transition_score = max 0 (0.6 - transition_ratio st) * 2;
               final_score = max_anomaly st * anomaly_weight
                           + chi_score * chi_square_weight
                           + transition_score * transition_weight;
               is_detected = (final_score > 0.5);
               confidence = min 0.95 final_score
           in [''detected'' \<mapsto> PBool is_detected,
               ''confidence'' \<mapsto> PNum confidence,
               ''lsb_frequencies'' \<mapsto> PList (map PNum (lsb_frequencies st)),
               ''chi_square_avg'' \<mapsto> PNum (avg_chi_square st),
               ''transition_ratio'' \<mapsto> PNum (transition_ratio st),
               ''anomaly_score'' \<mapsto> PNum (max_anomaly st),
               ''details'' \<mapsto> PDict [''image_size'' \<mapsto> PStr (image_size st),
                                      ''color_mode'' \<mapsto> PStr (color_mode st)]])
      | Inl e \<Rightarrow>
          [''detected'' \<mapsto> PBool False,
           ''confidence'' \<mapsto> PNum 0.0,
           ''error'' \<mapsto> PStr (str_exc e)])"

text \<open>
  \<open>detect_stegexpose\<close> runs the external tool and parses four scores from its
  output; spawning the process, a non-zero exit code, too few fields and a field
  that is not a number all raise inside the \<open>try\<close> block. The input is the
  exception or the four scores (chi-square, weighted, sample pairs, fusion).
\<close>

definition detect_stegexpose :: "py_exception + real \<times> real \<times> real \<times> real \<Rightarrow> dict" where
  "detect_stegexpose outcome =
     (case outcome of
        Inr (chi_square_score, weighted_score, sample_pairs_score, fusion_score) \<Rightarrow>
          (let is_detected = (fusion_score > 0.5);
               confidence = min 0.95 fusion_score
           in [''detected'' \<mapsto> PBool is_detected,
               ''confidence'' \<mapsto> PNum confidence,
               ''chi_square_score'' \<mapsto> PNum chi_square_score,
               ''weighted_score'' \<mapsto> PNum weighted_score,
               ''sample_pairs_score'' \<mapsto> PNum sample_pairs_score,
               ''fusion_score'' \<mapsto> PNum fusion_score])
      | Inl e \<Rightarrow>
          [''detected'' \<mapsto> PBool False,
           ''confidence'' \<mapsto> PNum 0.0,
           ''error'' \<mapsto> PStr (str_exc e)])"

text \<open>\<open>needle in haystack\<close> on strings.\<close>

fun contains :: "string \<Rightarrow> string \<Rightarrow> bool" where
  "contains [] needle = (needle = [])"
| "contains (c # cs) needle = (take (length needle) (c # cs) = needle \<or> contains cs needle)"

text \<open>
  \<open>detect_openstego\<close> runs the external tool and looks for the word "Extracted"
  in its output. The input is the exception the \<open>try\<close> block raised or the
  output (stdout followed by stderr), already stripped where it is reported.
\<close>

definition detect_openstego :: "py_exception + string \<Rightarrow> dict" where
  "detect_openstego outcome =
     (case outcome of
        Inr output \<Rightarrow>
          (let is_detected = (contains output ''Extracted'' \<or> contains output ''extracted'');
               confidence = (if is_detected then 0.85 else 0.0)
           in [''detected'' \<mapsto> PBool is_detected,
               ''confidence'' \<mapsto> PNum confidence,
               ''tool_output'' \<mapsto> PStr output])
      | Inl e \<Rightarrow>
          [''detected'' \<mapsto> PBool False,
           ''confidence'' \<mapsto> PNum 0.0,
           ''error'' \<mapsto> PStr (str_exc e)])"

text \<open>
  What the outside world answers for one image: whether writing the temporary file
  fails, and what each of the three detectors meets.
\<close>

record image_file =
  temp_file_fails :: "py_exception option"
  lsb_outcome :: "py_exception + lsb_stats"
  stegexpose_outcome :: "py_exception + real \<times> real \<times> real \<times> real"
  openstego_outcome :: "py_exception + string"

text \<open>
  \<open>results["detailsByMethod"]\<close> is iterated in insertion order: it is a list of
  pairs of method name and sub-result. The first loop sets the flag and collects the
  methods that detected something; the second sums the confidences, the LSB analysis
  counting twice, over the sub-results that have a \<open>confidence\<close> key.
\<close>

fun detection_loop :: "(string \<times> dict) list \<Rightarrow> bool \<times> string list \<Rightarrow> bool \<times> string list" where
  "detection_loop [] acc = acc"
| "detection_loop ((method, method_result) # rest) (has, methods) =
     detection_loop rest
       (if get_flag method_result ''detected'' then (True, methods @ [method])
        else (has, methods))"

fun confidence_loop :: "(string \<times> dict) list \<Rightarrow> real \<times> nat \<Rightarrow> real \<times> nat" where
  "confidence_loop [] acc = acc"
| "confidence_loop ((method, method_result) # rest) (confidence_sum, methods_count) =
     confidence_loop rest
       (case method_result ''confidence'' of
          Some c \<Rightarrow>
            (if method = ''lsb_analysis''
             then (confidence_sum + (case c of PNum x \<Rightarrow> x | _ \<Rightarrow> 0) * 2, methods_count + 2)
             else (confidence_sum + (case c of PNum x \<Rightarrow> x | _ \<Rightarrow> 0), methods_count + 1))
        | None \<Rightarrow> (confidence_sum, methods_count))"

text \<open>
  The sub-results \<open>detect_steganography\<close> gathers: the LSB analysis always, the two
  external tools only when the LSB confidence is below 0.8. The three detectors
  catch every exception themselves, so the handlers around the two external calls
  (which would record a dictionary with an \<open>error\<close> key only) are never entered.
\<close>

definition details_by_method :: "image_file \<Rightarrow> (string \<times> dict) list" where
  "details_by_method f =
     (let lsb_result = detect_lsb (lsb_outcome f)
      in if get_num lsb_result ''confidence'' < 0.8
         then [(''lsb_analysis'', lsb_result),
               (''stegexpose'', detect_stegexpose (stegexpose_outcome f)),
               (''openstego'', detect_openstego (openstego_outcome f))]
         else [(''lsb_analysis'', lsb_result)])"

definition detect_steganography :: "image_file \<Rightarrow> dict" where
  "detect_steganography f =
     (case temp_file_fails f of
        Some e \<Rightarrow>
          [''hasSteganography'' \<mapsto> PBool False,
           ''confidence'' \<mapsto> PNum 0.0,
           ''error'' \<mapsto> PStr (str_exc e),
           ''detectionMethods'' \<mapsto> PList []]
      | None \<Rightarrow>
          (let details = details_by_method f;
               (has, methods) = detection_loop details (False, []);
               (confidence_sum, methods_count) = confidence_loop details (0, 0);
               confidence = (if methods_count > 0 then confidence_sum / real methods_count
                             else 0.0)
           in [''hasSteganography'' \<mapsto> PBool has,
               ''confidence'' \<mapsto> PNum confidence,
               ''detectionMethods'' \<mapsto> PList (map PStr methods),
               ''detailsByMethod'' \<mapsto> PDict (map_option PDict \<circ> map_of details)]))"

text \<open>
  The aggregation as the specification words it: the weighted average of the
  confidences of the sub-results that did not error (those without an \<open>error\<close>
  key), the LSB analysis weighted double; and the disjunction of their flags.
\<close>

definition spec_weight :: "string \<Rightarrow> real" where
  "spec_weight method = (if method = ''lsb_analysis'' then 2 else 1)"

definition spec_overall_confidence :: "(string \<times> dict) list \<Rightarrow> real" where
  "spec_overall_confidence details =
     (let ok = filter (\<lambda>(method, r). r ''error'' = None) details;
          weight_sum = sum_list (map (\<lambda>(method, r). spec_weight method) ok)
      in if weight_sum > 0
         then sum_list (map (\<lambda>(method, r). spec_weight method * get_num r ''confidence'') ok)
              / weight_sum
         else 0)"

definition spec_overall_detected :: "(string \<times> dict) list \<Rightarrow> bool" where
  "spec_overall_detected details =
     list_ex (\<lambda>(method, r). get_flag r ''detected'')
       (filter (\<lambda>(method, r). r ''error'' = None) details)"


section \<open>Notions used to state the properties\<close>

text \<open>A frame counts as suspicious when either statistic crosses its threshold.\<close>

definition frame_suspicious :: "real \<times> real \<Rightarrow> bool" where
  "frame_suspicious fr = (case fr of (chi_p, entropy_val) \<Rightarrow> chi_p < 0.05 \<or> entropy_val > 0.97)"

text \<open>
  The audio sub-analysis of a video flags detection: a track was extracted and its
  verdict has \<open>hasSteganography = True\<close>.
\<close>

definition audio_detects :: "(py_exception + real \<times> real) option \<Rightarrow> bool" where
  "audio_detects audio =
     (case audio of None \<Rightarrow> False
      | Some a \<Rightarrow> get_flag (analyze_audio_lsb a) ''hasSteganography'')"


text \<open>
  One instance of the grayscale conversion, for worked examples: the weights
  \<open>Y = 0.299 R + 0.587 G + 0.114 B\<close> in the 15-bit fixed point of OpenCV 4's 8-bit
  conversion, \<open>(3735 B + 19235 G + 9798 R + 16384) >> 15\<close>, on a pixel in B, G, R
  order. The properties below hold for every conversion.
\<close>

definition weighted_bgr2gray :: "8 word list \<Rightarrow> 8 word" where
  "weighted_bgr2gray p =
     (case p of
        b # g # r # _ \<Rightarrow>
          word_of_nat ((3735 * unat b + 19235 * unat g + 9798 * unat r + 16384) div 32768)
      | _ \<Rightarrow> 0)"

text \<open>The counters of the RS loop are consistent: regular and singular blocks are among the counted ones.\<close>

definition counts_ok :: "nat \<times> nat \<times> nat \<Rightarrow> bool" where
  "counts_ok acc = (case acc of (total_n, regular, singular) \<Rightarrow> regular + singular \<le> total_n)"

text \<open>A file on which nothing is ever looked at, for worked examples of the dispatcher.\<close>

definition untouched_file :: media_file where
  "untouched_file =
     \<lparr>save_fails = None,
      audio_outcome = Inl (OtherException ''not decoded''),
      video_frames = [],
      video_audio = None,
      image_result = EmptyImage\<rparr>"


text \<open>
  An image on a host without Java, for a worked example of the aggregation: the LSB
  analysis succeeds (LSB frequency 0.9 in each channel of a thousand pixels), and
  both external tools fail to start.
\<close>

definition host_without_java :: image_file where
  "host_without_java =
     \<lparr>temp_file_fails = None,
      lsb_outcome = Inr \<lparr>lsb_frequencies = [0.9, 0.9, 0.9],
                         max_anomaly = 0.4,
                         avg_chi_square = 640,
                         transition_ratio = 0.18,
                         image_size = ''40x25'',
                         color_mode = ''RGB''\<rparr>,
      stegexpose_outcome = Inl (OtherException ''[Errno 2] No such file or directory: java''),
      openstego_outcome = Inl (OtherException ''[Errno 2] No such file or directory: java'')\<rparr>"


section \<open>Properties\<close>

lemma composite_score_indicators:
  "composite_score (b_chi_p b) (b_entropy b) (b_rs_reg b) (b_rs_sing b) (b_slope b)
     = (indicators b \<ge> 3)"
  by (simp add: composite_score_def indicators_def Let_def)

lemma py_round_06: "py_round 0.6 2 = 0.6"
  by (simp add: py_round_def round_half_even_def)

text \<open>
  C1. When exactly three of the four indicator conditions hold, the indicator-counting
  scorer of \<open>advanced_lsb_detector.py\<close> reports \<open>detected = True\<close>, and the
  confidence is the base value 0.6: the bonus \<open>(indicators - 3) * 0.35\<close> is zero.
\<close>

theorem three_indicators_base_confidence:
  assumes "indicators b = 3"
  shows "detector_analyze_image (Inr b) ''detected'' = Some (PBool True)
       \<and> detector_analyze_image (Inr b) ''confidence'' = Some (PNum 0.6)
       \<and> of_int (indicators b - 3) * (0.35::real) = 0"
proof -
  have susp: "composite_score (b_chi_p b) (b_entropy b) (b_rs_reg b) (b_rs_sing b) (b_slope b)"
    using assms by (simp add: composite_score_indicators)
  have conf: "detector_confidence b True = 0.6"
    using assms by (simp add: detector_confidence_def)
  have "py_round (detector_confidence b True) 2 = 0.6"
    unfolding conf by (rule py_round_06)
  with susp assms show ?thesis
    by (simp add: detector_analyze_image_def Let_def)
qed

theorem three_indicators_base_confidence_witness:
  "indicators \<lparr>b_chi_p = 0.01, b_entropy = 0.95, b_rs_reg = 0.5, b_rs_sing = 0.5,
                b_slope = 50, b_format = ''png''\<rparr> = 3
   \<and> detector_analyze_image
        (Inr \<lparr>b_chi_p = 0.01, b_entropy = 0.95, b_rs_reg = 0.5, b_rs_sing = 0.5,
               b_slope = 50, b_format = ''png''\<rparr>) ''detected'' = Some (PBool True)
   \<and> detector_analyze_image
        (Inr \<lparr>b_chi_p = 0.01, b_entropy = 0.95, b_rs_reg = 0.5, b_rs_sing = 0.5,
               b_slope = 50, b_format = ''png''\<rparr>) ''confidence'' = Some (PNum 0.6)"
proof -
  let ?b = "\<lparr>b_chi_p = 0.01, b_entropy = 0.95, b_rs_reg = 0.5, b_rs_sing = 0.5,
             b_slope = 50, b_format = ''png''\<rparr>"
  have three: "indicators ?b = 3"
    by (simp add: indicators_def)
  from three_indicators_base_confidence [OF three] three show ?thesis
    by blast
qed


subsection \<open>The audio verdict\<close>

text \<open>
  The verdict of \<open>analyze_audio_lsb\<close>, band by band. The flag is the disjunction of
  the two thresholds only in the first three bands; the last band switches it off.
\<close>

lemma audio_verdict_bands:
  "analyze_audio_lsb (Inr (chi_p, entropy_val)) ''hasSteganography''
     = Some (PBool ((chi_p < 0.05 \<or> entropy_val > 0.97) \<and> chi_p < 0.1 \<and> entropy_val > 0.95))
   \<and> analyze_audio_lsb (Inr (chi_p, entropy_val)) ''confidence''
     = Some (PNum (if chi_p < 0.01 \<and> entropy_val > 0.98 then 0.9
                   else if chi_p < 0.05 \<and> entropy_val > 0.97 then 0.7
                   else if chi_p < 0.1 \<and> entropy_val > 0.95 then 0.5
                   else 0.3))"
proof -
  consider (a) "chi_p < 0.01 \<and> entropy_val > 0.98"
    | (b) "\<not> (chi_p < 0.01 \<and> entropy_val > 0.98)" "chi_p < 0.05 \<and> entropy_val > 0.97"
    | (c) "\<not> (chi_p < 0.05 \<and> entropy_val > 0.97)" "chi_p < 0.1 \<and> entropy_val > 0.95"
    | (d) "\<not> (chi_p < 0.1 \<and> entropy_val > 0.95)"
    by (cases "chi_p < 0.01 \<and> entropy_val > 0.98";
        cases "chi_p < 0.05 \<and> entropy_val > 0.97";
        cases "chi_p < 0.1 \<and> entropy_val > 0.95") auto
  then show ?thesis
  proof cases
    case a
    then show ?thesis by (simp add: analyze_audio_lsb_def)
  next
    case b
    then have "\<not> (chi_p < 0.01 \<and> entropy_val > 0.98)" by simp
    with b show ?thesis by (simp add: analyze_audio_lsb_def)
  next
    case c
    then have "\<not> (chi_p < 0.01 \<and> entropy_val > 0.98)" by auto
    with c show ?thesis by (auto simp add: analyze_audio_lsb_def)
  next
    case d
    then have "\<not> (chi_p < 0.01 \<and> entropy_val > 0.98)" "\<not> (chi_p < 0.05 \<and> entropy_val > 0.97)"
      by auto
    with d show ?thesis by (auto simp add: analyze_audio_lsb_def)
  qed
qed

text \<open>
  In the third band the flag is the disjunction, which may be false there: a p-value
  of 0.07 with an entropy of 0.96 gives confidence 0.5 and no detection.
\<close>

lemma audio_verdict_third_band_example:
  "analyze_audio_lsb (Inr (0.07, 0.96)) ''hasSteganography'' = Some (PBool False)
   \<and> analyze_audio_lsb (Inr (0.07, 0.96)) ''confidence'' = Some (PNum 0.5)"
  using audio_verdict_bands [of "0.07" "0.96"] by simp

text \<open>
  A p-value of 0.01 with an entropy of 0.5 exceeds the first threshold and falls into
  the last band.
\<close>

lemma audio_last_band_example:
  "((0.01::real) < 0.05 \<or> (0.5::real) > 0.97)
   \<and> analyze_audio_lsb (Inr (0.01, 0.5)) ''hasSteganography'' = Some (PBool False)
   \<and> analyze_audio_lsb (Inr (0.01, 0.5)) ''confidence'' = Some (PNum 0.3)"
  by (simp add: analyze_audio_lsb_def)

text \<open>
  Samples whose least significant bits alternate, as the message embedded by
  \<open>test_media_steganography.py\<close> does, have as many zeros as ones: the chi-square
  statistic is 0, so the p-value is the survival function at 0.
\<close>

lemma alternating_bits_statistic: "chi_square_test sf [[1, 0, 1, 0 :: int]] = (0, sf 0 1)"
  by (simp add: chi_square_test_def unique_values_def unique_counts_def chisquare_def
      broadcast_to_def sums_disagree_def)

text \<open>Whatever the entropy, a p-value of 0.1 or more ends in the last band.\<close>

lemma audio_large_p_value_not_flagged:
  assumes "\<not> chi_p < 0.1"
  shows "analyze_audio_lsb (Inr (chi_p, entropy_val)) ''hasSteganography'' = Some (PBool False)
       \<and> analyze_audio_lsb (Inr (chi_p, entropy_val)) ''confidence'' = Some (PNum 0.3)"
  using assms audio_verdict_bands [of chi_p entropy_val] by auto

text \<open>
  C2. The audio verdict is not the disjunction of the two thresholds. On a clip whose
  least significant bits carry an alternating message the bits are balanced: the
  chi-square p-value is 1 and the entropy is 1, above the threshold 0.97, so the
  disjunction holds; the module's test expects such a clip to be flagged. The
  verdict is \<open>hasSteganography = False\<close> with confidence 0.3.
\<close>

theorem audio_alternating_message_not_flagged:
  "((1::real) < 0.05 \<or> (1::real) > 0.97)
   \<and> analyze_audio_lsb (Inr (1, 1)) ''hasSteganography'' = Some (PBool False)
   \<and> analyze_audio_lsb (Inr (1, 1)) ''confidence'' = Some (PNum 0.3)"
  by (simp add: analyze_audio_lsb_def)


subsection \<open>Degenerate input of the chi-square test\<close>

text \<open>
  C3. The chi-square test of \<open>advanced_steganography.py\<close> and
  \<open>advanced_lsb_detector.py\<close> raises on degenerate planes instead of returning a
  fallback: on the empty plane the empty array of counts cannot be broadcast against
  the two expected frequencies, and on a plane with one distinct value the single
  count is broadcast against them and the sums disagree.
\<close>

theorem legacy_chi_square_raises_on_degenerate:
  "(\<exists>msg. legacy_chi_square_test sf ([] :: 8 word list list) = Inl (ValueError msg))
   \<and> (\<exists>msg. legacy_chi_square_test sf [[0, 0], [0, 0 :: 8 word]] = Inl (ValueError msg))"
proof
  show "\<exists>msg. legacy_chi_square_test sf ([] :: 8 word list list) = Inl (ValueError msg)"
    by (simp add: legacy_chi_square_test_def unique_counts_def unique_values_def chisquare_def)
next
  have counts: "unique_counts [0, 0, 0, 0 :: 8 word] = [4]"
    by (simp add: unique_counts_def unique_values_def)
  have "sums_disagree 8 4"
    by (simp add: sums_disagree_def)
  then show "\<exists>msg. legacy_chi_square_test sf [[0, 0], [0, 0 :: 8 word]] = Inl (ValueError msg)"
    by (simp add: legacy_chi_square_test_def counts chisquare_def broadcast_to_def
        numeral_2_eq_2)
qed

text \<open>
  The test of \<open>advanced_media_steganography.py\<close> has the handler: the empty plane
  gives the fallback \<open>(0, 1.0)\<close>.
\<close>

lemma chi_square_test_empty: "chi_square_test sf ([] :: 8 word list list) = (0, 1)"
  by (simp add: chi_square_test_def unique_values_def)


subsection \<open>The video verdict\<close>

lemma frame_loop_all_analysed:
  "frame_loop (map Inr stats) n cs es
     = Inr (n + length (filter frame_suspicious stats), cs @ map fst stats, es @ map snd stats)"
proof (induction stats arbitrary: n cs es)
  case Nil
  then show ?case by simp
next
  case (Cons fr stats)
  obtain chi_p entropy_val where fr: "fr = (chi_p, entropy_val)"
    by (cases fr)
  show ?case
    by (simp add: fr Cons.IH frame_suspicious_def)
qed

lemma ratio_bands_lowest:
  "0 < r \<Longrightarrow> r \<le> 0.1 \<Longrightarrow> ratio_bands r = (True, r * 3.0)"
  by (simp add: ratio_bands_def)

lemma ratio_bands_positive: "0 < r \<Longrightarrow> fst (ratio_bands r)"
  by (simp add: ratio_bands_def)

lemma analyze_video_unflagged:
  assumes "stats \<noteq> []" and "\<not> audio_detects audio"
  shows "analyze_video (map Inr stats) audio ''hasSteganography''
           = Some (PBool (fst (ratio_bands
               (real (length (filter frame_suspicious stats)) / real (length stats)))))"
    and "analyze_video (map Inr stats) audio ''confidence''
           = Some (PNum (min (snd (ratio_bands
               (real (length (filter frame_suspicious stats)) / real (length stats)))) 1))"
  using assms
  by (auto simp add: analyze_video_def frame_loop_all_analysed audio_detects_def Let_def
      split: option.splits prod.splits)

lemma analyze_video_flagged:
  assumes "stats \<noteq> []" and "audio_detects audio"
  shows "analyze_video (map Inr stats) audio ''hasSteganography'' = Some (PBool True)"
  using assms
  by (auto simp add: analyze_video_def frame_loop_all_analysed audio_detects_def Let_def
      split: option.splits prod.splits)

text \<open>
  C5. A video of which 24 frames were analysed, exactly 8 of them suspicious (ratio
  1/3), and whose audio analysis does not flag detection: the confidence is
  \<open>0.5 + (1/3 - 0.3) * 2.0\<close>, which lies between 0.5 and 0.7, and the verdict is
  positive.
\<close>

theorem video_eight_of_24_confidence:
  assumes "length stats = 24"
    and "length (filter frame_suspicious stats) = 8"
    and "\<not> audio_detects audio"
  shows "analyze_video (map Inr stats) audio ''confidence''
           = Some (PNum (0.5 + (1 / 3 - 0.3) * 2.0))
       \<and> (0.5::real) \<le> 0.5 + (1 / 3 - 0.3) * 2.0
       \<and> 0.5 + (1 / 3 - 0.3) * 2.0 \<le> (0.7::real)
       \<and> analyze_video (map Inr stats) audio ''hasSteganography'' = Some (PBool True)"
proof -
  from assms(1) have ne: "stats \<noteq> []" by auto
  have ratio: "real (length (filter frame_suspicious stats)) / real (length stats) = 1 / 3"
    using assms(1,2) by simp
  have bands: "ratio_bands (1 / 3) = (True, 0.5 + (1 / 3 - 0.3) * 2.0)"
    by (simp add: ratio_bands_def)
  have "analyze_video (map Inr stats) audio ''confidence''
          = Some (PNum (min (0.5 + (1 / 3 - 0.3) * 2.0) 1))"
    using analyze_video_unflagged(2) [OF ne assms(3)] by (simp only: ratio bands snd_conv)
  moreover have "analyze_video (map Inr stats) audio ''hasSteganography'' = Some (PBool True)"
    using analyze_video_unflagged(1) [OF ne assms(3)] by (simp only: ratio bands fst_conv)
  ultimately show ?thesis by simp
qed

theorem video_eight_of_24_confidence_witness:
  "length (replicate 8 (0.01::real, 0.5::real) @ replicate 16 (0.5, 0.5)) = 24
   \<and> length (filter frame_suspicious (replicate 8 (0.01, 0.5) @ replicate 16 (0.5, 0.5))) = 8
   \<and> \<not> audio_detects None
   \<and> analyze_video (map Inr (replicate 8 (0.01, 0.5) @ replicate 16 (0.5, 0.5))) None
        ''confidence'' = Some (PNum (17 / 30))"
proof -
  let ?stats = "replicate 8 (0.01::real, 0.5::real) @ replicate 16 (0.5, 0.5)"
  have len: "length ?stats = 24" by simp
  have susp: "length (filter frame_suspicious ?stats) = 8"
    by (simp add: frame_suspicious_def)
  have quiet: "\<not> audio_detects None"
    by (simp add: audio_detects_def)
  from video_eight_of_24_confidence [OF len susp quiet] len susp quiet show ?thesis
    by simp
qed

lemma video_detection_parts:
  assumes "0 < length (filter frame_suspicious stats)"
  shows "analyze_video (map Inr stats) audio ''hasSteganography'' = Some (PBool True)"
    and "real (length (filter frame_suspicious stats)) / real (length stats) \<le> 0.1
         \<Longrightarrow> ratio_bands (real (length (filter frame_suspicious stats)) / real (length stats))
              = (True, real (length (filter frame_suspicious stats)) / real (length stats) * 3.0)"
    and "real (length (filter frame_suspicious stats)) / real (length stats) \<le> 0.1
         \<Longrightarrow> \<not> audio_detects audio
         \<Longrightarrow> analyze_video (map Inr stats) audio ''confidence''
              = Some (PNum (real (length (filter frame_suspicious stats)) / real (length stats) * 3.0))"
proof -
  let ?r = "real (length (filter frame_suspicious stats)) / real (length stats)"
  from assms have ne: "stats \<noteq> []" by auto
  then have "0 < length stats" by simp
  with assms have pos: "0 < ?r" by simp
  have flag: "fst (ratio_bands ?r)"
    using pos by (rule ratio_bands_positive)
  show "analyze_video (map Inr stats) audio ''hasSteganography'' = Some (PBool True)"
  proof (cases "audio_detects audio")
    case True
    then show ?thesis by (rule analyze_video_flagged [OF ne])
  next
    case False
    then show ?thesis using analyze_video_unflagged(1) [OF ne False] flag by simp
  qed
  show low: "ratio_bands ?r = (True, ?r * 3.0)" if "?r \<le> 0.1"
    using pos that by (rule ratio_bands_lowest)
  show "analyze_video (map Inr stats) audio ''confidence'' = Some (PNum (?r * 3.0))"
    if "?r \<le> 0.1" and "\<not> audio_detects audio"
  proof -
    have "?r * 3.0 \<le> 1" using that(1) by simp
    then show ?thesis
      using analyze_video_unflagged(2) [OF ne that(2)] low [OF that(1)] by simp
  qed
qed

text \<open>
  C10. As soon as one analysed frame is suspicious the video verdict is positive,
  also in the lowest band (ratio at most 0.1), where the band's confidence is three
  times the ratio; that is the verdict's confidence unless the audio analysis flags
  detection as well.
\<close>

theorem video_one_suspicious_frame_detects:
  assumes "0 < length (filter frame_suspicious stats)"
  shows "analyze_video (map Inr stats) audio ''hasSteganography'' = Some (PBool True)
       \<and> (real (length (filter frame_suspicious stats)) / real (length stats) \<le> 0.1
            \<longrightarrow> ratio_bands (real (length (filter frame_suspicious stats)) / real (length stats))
                  = (True, real (length (filter frame_suspicious stats)) / real (length stats) * 3.0)
              \<and> (\<not> audio_detects audio
                   \<longrightarrow> analyze_video (map Inr stats) audio ''confidence''
                         = Some (PNum (real (length (filter frame_suspicious stats))
                                        / real (length stats) * 3.0))))"
  using video_detection_parts [OF assms] by blast

theorem video_one_suspicious_frame_detects_witness:
  "0 < length (filter frame_suspicious ((0.01, 0.5) # replicate 9 (0.5, 0.5)))
   \<and> analyze_video (map Inr ((0.01, 0.5) # replicate 9 (0.5, 0.5))) None ''hasSteganography''
       = Some (PBool True)
   \<and> analyze_video (map Inr ((0.01, 0.5) # replicate 9 (0.5, 0.5))) None ''confidence''
       = Some (PNum 0.3)"
proof -
  let ?stats = "(0.01::real, 0.5::real) # replicate 9 (0.5, 0.5)"
  have susp: "length (filter frame_suspicious ?stats) = 1"
    by (simp add: frame_suspicious_def)
  then have pos: "0 < length (filter frame_suspicious ?stats)" by simp
  have ratio: "real (length (filter frame_suspicious ?stats)) / real (length ?stats) = 0.1"
    by (simp add: frame_suspicious_def)
  have quiet: "\<not> audio_detects None"
    by (simp add: audio_detects_def)
  have le: "real (length (filter frame_suspicious ?stats)) / real (length ?stats) \<le> 0.1"
    unfolding ratio by simp
  note inst = video_one_suspicious_frame_detects [OF pos, of None]
  from inst have flag:
    "analyze_video (map Inr ?stats) None ''hasSteganography'' = Some (PBool True)"
    by blast
  from inst le quiet have
    "analyze_video (map Inr ?stats) None ''confidence''
       = Some (PNum (real (length (filter frame_suspicious ?stats)) / real (length ?stats) * 3.0))"
    by blast
  then have conf: "analyze_video (map Inr ?stats) None ''confidence'' = Some (PNum 0.3)"
    unfolding ratio by simp
  from pos flag conf show ?thesis
    by blast
qed


subsection \<open>Dispatch on an unknown extension\<close>

text \<open>
  C6. When the lowercased extension of the file name is in none of the three
  extension sets, the dispatcher returns the unknown-media-type verdict
  (\<open>hasSteganography = False\<close>, \<open>confidence = 0\<close>) and takes no step on the
  file: no temporary file, no analysis. The result is the same whatever the bytes
  would have decoded to. This holds whatever \<open>str.lower\<close> does to the extension.
\<close>

theorem unknown_extension_no_processing:
  assumes "extension str_lower file_name \<notin> set AUDIO_EXTENSIONS \<union> set VIDEO_EXTENSIONS \<union> set IMAGE_EXTENSIONS"
  shows "snd (detect_media_steganography str_lower file_data file_name) = []
       \<and> fst (detect_media_steganography str_lower file_data file_name) ''hasSteganography''
           = Some (PBool False)
       \<and> fst (detect_media_steganography str_lower file_data file_name) ''confidence'' = Some (PNum 0)
       \<and> fst (detect_media_steganography str_lower file_data file_name) ''mediaType''
           = Some (PStr ''unknown'')
       \<and> fst (detect_media_steganography str_lower file_data file_name) ''error''
           = Some (PStr (''Unsupported file format: '' @ extension str_lower file_name))
       \<and> detect_media_steganography str_lower file_data file_name
           = detect_media_steganography str_lower other_data file_name"
  using assms by (simp add: detect_media_steganography_def Let_def)

lemma extension_notes_TXT: "extension ascii_lower ''notes.TXT'' = ''.txt''"
  by code_simp

theorem unknown_extension_no_processing_witness:
  "extension ascii_lower ''notes.TXT'' \<notin> set AUDIO_EXTENSIONS \<union> set VIDEO_EXTENSIONS \<union> set IMAGE_EXTENSIONS
   \<and> snd (detect_media_steganography ascii_lower untouched_file ''notes.TXT'') = []
   \<and> fst (detect_media_steganography ascii_lower untouched_file ''notes.TXT'') ''hasSteganography''
       = Some (PBool False)
   \<and> fst (detect_media_steganography ascii_lower untouched_file ''notes.TXT'') ''confidence'' = Some (PNum 0)"
proof -
  have unknown:
    "extension ascii_lower ''notes.TXT'' \<notin> set AUDIO_EXTENSIONS \<union> set VIDEO_EXTENSIONS \<union> set IMAGE_EXTENSIONS"
    by (simp add: extension_notes_TXT AUDIO_EXTENSIONS_def VIDEO_EXTENSIONS_def
        IMAGE_EXTENSIONS_def)
  from unknown_extension_no_processing [OF unknown, of untouched_file] unknown
  show ?thesis by blast
qed


subsection \<open>Bit-plane extraction\<close>

lemma and1_idem: "and1 (and1 gray) = and1 gray"
  by (simp add: and1_def word_bw_assocs)

lemma and1_zeros: "and1 (replicate m (replicate n 0)) = replicate m (replicate n 0)"
  by (simp add: and1_def)

lemma and1_entry:
  "i < length gray \<Longrightarrow> j < length (gray ! i) \<Longrightarrow> and1 gray ! i ! j = (gray ! i ! j) AND 1"
  by (simp add: and1_def)

lemma extract_lsb_plane_cases:
  "extract_lsb_plane g img = replicate 50 (replicate 50 0)
   \<or> (\<exists>gray. extract_lsb_plane g img = and1 gray)"
  by (auto simp add: extract_lsb_plane_def split: image.splits sum.splits)

text \<open>
  C8, as the code has it. The extractor of \<open>advanced_media_steganography.py\<close> is a
  function of its input alone, and applying it to its own output gives that output
  back; on a grayscale plane, and on a colour image that OpenCV converts, every entry
  of the output is the grayscale value AND 1, and on a colour image that OpenCV
  refuses the output is the 50 by 50 plane of zeros. The extractors of
  \<open>advanced_steganography.py\<close> and \<open>advanced_lsb_detector.py\<close> give the same plane
  on a colour image, but they accept colour images only: on a two-dimensional plane,
  their own output included, they raise.
\<close>

theorem extract_lsb_plane_idempotent:
  "extract_lsb_plane g (Gray2D (extract_lsb_plane g img)) = extract_lsb_plane g img
   \<and> extract_lsb_plane g (Gray2D gray) = and1 gray
   \<and> (cvtColor_BGR2GRAY g (Color3D rws) = Inr gray'
        \<longrightarrow> extract_lsb_plane g (Color3D rws) = and1 gray'
          \<and> legacy_extract_lsb_plane g (Color3D rws) = Inr (and1 gray'))
   \<and> (i < length gray \<longrightarrow> j < length (gray ! i)
        \<longrightarrow> and1 gray ! i ! j = (gray ! i ! j) AND 1)
   \<and> (\<exists>msg. legacy_extract_lsb_plane g (Gray2D gray) = Inl (CvError msg))
   \<and> (cvtColor_BGR2GRAY g (Color3D rws) = Inl e
        \<longrightarrow> extract_lsb_plane g (Color3D rws) = replicate 50 (replicate 50 0))"
proof (intro conjI impI)
  have gray: "extract_lsb_plane g (Gray2D p) = and1 p" for p
    by (simp add: extract_lsb_plane_def)
  show "extract_lsb_plane g (Gray2D (extract_lsb_plane g img)) = extract_lsb_plane g img"
    using extract_lsb_plane_cases [of g img]
    by (auto simp add: gray and1_idem and1_zeros)
  show "extract_lsb_plane g (Gray2D gray) = and1 gray"
    by (rule gray)
  show "extract_lsb_plane g (Color3D rws) = and1 gray'"
    if "cvtColor_BGR2GRAY g (Color3D rws) = Inr gray'"
    using that by (simp add: extract_lsb_plane_def)
  show "legacy_extract_lsb_plane g (Color3D rws) = Inr (and1 gray')"
    if "cvtColor_BGR2GRAY g (Color3D rws) = Inr gray'"
    using that by (simp add: legacy_extract_lsb_plane_def)
  show "and1 gray ! i ! j = (gray ! i ! j) AND 1"
    if "i < length gray" and "j < length (gray ! i)"
    using that by (rule and1_entry)
  show "\<exists>msg. legacy_extract_lsb_plane g (Gray2D gray) = Inl (CvError msg)"
    by (simp add: legacy_extract_lsb_plane_def cvtColor_BGR2GRAY_def)
  show "extract_lsb_plane g (Color3D rws) = replicate 50 (replicate 50 0)"
    if "cvtColor_BGR2GRAY g (Color3D rws) = Inl e"
    using that by (simp add: extract_lsb_plane_def)
qed

lemma weighted_example: "cvtColor_BGR2GRAY weighted_bgr2gray (Color3D [[[10, 20, 31]]]) = Inr [[22]]"
  by (simp add: cvtColor_BGR2GRAY_def channels_def weighted_bgr2gray_def)

text \<open>The fixed point truncates where exact rounding of 48.5 would give 49.\<close>

lemma weighted_fixed_point_example: "weighted_bgr2gray [65, 70, 0] = 48"
  by (simp add: weighted_bgr2gray_def)

theorem extract_lsb_plane_idempotent_witness:
  "cvtColor_BGR2GRAY weighted_bgr2gray (Color3D [[[10, 20, 31]]]) = Inr [[22]]
   \<and> extract_lsb_plane weighted_bgr2gray (Color3D [[[10, 20, 31]]]) = [[0]]
   \<and> extract_lsb_plane weighted_bgr2gray
        (Gray2D (extract_lsb_plane weighted_bgr2gray (Color3D [[[10, 20, 31]]]))) = [[0]]"
proof -
  note inst = extract_lsb_plane_idempotent
    [of weighted_bgr2gray "Color3D [[[10, 20, 31]]]" "[[22]]" "[[[10, 20, 31]]]" "[[22]]" 0 0]
  from inst weighted_example
  have plane: "extract_lsb_plane weighted_bgr2gray (Color3D [[[10, 20, 31]]]) = and1 [[22]]"
    by blast
  have bits: "and1 [[22]] = [[0]]"
    by (simp add: and1_def)
  from inst have "extract_lsb_plane weighted_bgr2gray
        (Gray2D (extract_lsb_plane weighted_bgr2gray (Color3D [[[10, 20, 31]]])))
      = extract_lsb_plane weighted_bgr2gray (Color3D [[[10, 20, 31]]])"
    by blast
  with plane bits weighted_example show ?thesis
    by simp
qed

text \<open>
  The claim as stated fails for the extractor of \<open>advanced_lsb_detector.py\<close>: it
  turns a one-pixel colour image into the plane \<open>[[0]]\<close>, and applied to that plane
  it raises instead of returning it.
\<close>

theorem legacy_extract_reapplied_counterexample:
  "legacy_extract_lsb_plane weighted_bgr2gray (Color3D [[[10, 20, 31]]]) = Inr [[0]]
   \<and> legacy_extract_lsb_plane weighted_bgr2gray (Gray2D [[0]])
       = Inl (CvError ''Invalid number of channels in input image'')"
  by (simp add: legacy_extract_lsb_plane_def cvtColor_BGR2GRAY_def channels_def
      weighted_bgr2gray_def and1_def)


subsection \<open>RS analysis\<close>

lemma fold_preserves:
  assumes "\<And>x a. P a \<Longrightarrow> P (f x a)" and "P a"
  shows "P (fold f xs a)"
  using assms(2) by (induction xs arbitrary: a) (auto intro: assms(1))

lemma fold_skip: "fold (\<lambda>i acc. acc) xs a = a"
  by (induction xs) auto

text \<open>Each block adds one to the total and at most one to one of the two other counters.\<close>

lemma rs_block_counts_ok: "counts_ok acc \<Longrightarrow> counts_ok (rs_block gray i j acc)"
  by (auto simp add: counts_ok_def rs_block_def Let_def split: prod.splits)

lemma rs_counts_ok: "counts_ok (rs_counts gray)"
  unfolding rs_counts_def
proof (rule fold_preserves)
  fix i acc
  assume "counts_ok acc"
  then show "counts_ok (fold (\<lambda>j acc'. rs_block gray i j acc') (range2 (int (n_cols gray) - 1)) acc)"
    by (rule fold_preserves [rotated]) (rule rs_block_counts_ok)
next
  show "counts_ok (0, 0, 0)"
    by (simp add: counts_ok_def)
qed

lemma range2_small: "n < 2 \<Longrightarrow> range2 (int n - 1) = []"
  by (simp add: range2_def)

lemma rs_counts_small: "n_rows gray < 2 \<or> n_cols gray < 2 \<Longrightarrow> rs_counts gray = (0, 0, 0)"
  by (auto simp add: rs_counts_def range2_small fold_skip)

lemma rs_analysis_in_unit_interval:
  "0 \<le> fst (rs_analysis gray) \<and> fst (rs_analysis gray) \<le> 1
   \<and> 0 \<le> snd (rs_analysis gray) \<and> snd (rs_analysis gray) \<le> 1
   \<and> fst (rs_analysis gray) + snd (rs_analysis gray) \<le> 1"
proof -
  obtain t r s where c: "rs_counts gray = (t, r, s)"
    by (cases "rs_counts gray")
  with rs_counts_ok [of gray] have le: "r + s \<le> t"
    by (simp add: counts_ok_def)
  show ?thesis
  proof (cases "t > 0")
    case True
    have "real r / real t + real s / real t = real (r + s) / real t"
      by (simp add: add_divide_distrib)
    also have "\<dots> \<le> 1" using le True by simp
    finally have sum: "real r / real t + real s / real t \<le> 1" .
    have "real r / real t \<le> 1" "real s / real t \<le> 1"
      using le True by simp_all
    with sum True show ?thesis
      by (simp add: rs_analysis_def c)
  next
    case False
    then show ?thesis by (simp add: rs_analysis_def c)
  qed
qed

text \<open>
  C9. The RS analysis on 2 by 2 blocks returns two fractions between 0 and 1 whose
  sum is at most 1, and \<open>(0, 0)\<close> for an array with fewer than two rows or fewer
  than two columns.
\<close>

theorem rs_analysis_fractions:
  "0 \<le> fst (rs_analysis gray) \<and> fst (rs_analysis gray) \<le> 1
   \<and> 0 \<le> snd (rs_analysis gray) \<and> snd (rs_analysis gray) \<le> 1
   \<and> fst (rs_analysis gray) + snd (rs_analysis gray) \<le> 1
   \<and> (n_rows gray < 2 \<or> n_cols gray < 2 \<longrightarrow> rs_analysis gray = (0, 0))"
  using rs_analysis_in_unit_interval [of gray]
  by (auto simp add: rs_analysis_def rs_counts_small)

text \<open>
  A plane of one row has no block. In a plane of two blocks, flipping the last bit
  of the flat block \<open>10, 10, 10, 10\<close> raises its variance (regular) and flipping
  that of \<open>7, 7, 7, 6\<close> lowers it (singular).
\<close>

lemma rs_analysis_example: "rs_analysis [[10, 10, 7, 7], [10, 10, 7, 6]] = (1 / 2, 1 / 2)"
  by code_simp

theorem rs_analysis_fractions_witness:
  "n_rows [[10, 10, 7, 7]] < 2
   \<and> rs_analysis [[10, 10, 7, 7]] = (0, 0)
   \<and> fst (rs_analysis [[10, 10, 7, 7], [10, 10, 7, 6]])
       + snd (rs_analysis [[10, 10, 7, 7], [10, 10, 7, 6]]) \<le> 1"
proof -
  have small: "n_rows [[10, 10, 7, 7]] < 2"
    by (simp add: n_rows_def)
  from rs_analysis_fractions [of "[[10, 10, 7, 7]]"] small
  have "rs_analysis [[10, 10, 7, 7]] = (0, 0)"
    by blast
  with small rs_analysis_fractions [of "[[10, 10, 7, 7], [10, 10, 7, 6]]"] show ?thesis
    by blast
qed


subsection \<open>Aggregation of the detectors\<close>

lemma example_lsb_confidence: "detect_lsb (lsb_outcome host_without_java) ''confidence'' = Some (PNum 0.728)"
  by (simp add: host_without_java_def detect_lsb_def Let_def)

lemma example_lsb_confidence_num: "get_num (detect_lsb (lsb_outcome host_without_java)) ''confidence'' = 0.728"
  by (simp add: get_num_def example_lsb_confidence)

lemma example_lsb_detected: "get_flag (detect_lsb (lsb_outcome host_without_java)) ''detected''"
  by (simp add: get_flag_def host_without_java_def detect_lsb_def Let_def)

lemma example_details: "details_by_method host_without_java =
   [(''lsb_analysis'', detect_lsb (lsb_outcome host_without_java)),
    (''stegexpose'', detect_stegexpose (stegexpose_outcome host_without_java)),
    (''openstego'', detect_openstego (openstego_outcome host_without_java))]"
  by (simp add: details_by_method_def Let_def example_lsb_confidence_num)

lemma example_stegexpose: "detect_stegexpose (stegexpose_outcome host_without_java) =
   [''detected'' \<mapsto> PBool False, ''confidence'' \<mapsto> PNum 0,
    ''error'' \<mapsto> PStr ''[Errno 2] No such file or directory: java'']"
  by (simp add: host_without_java_def detect_stegexpose_def)

lemma example_openstego: "detect_openstego (openstego_outcome host_without_java) =
   [''detected'' \<mapsto> PBool False, ''confidence'' \<mapsto> PNum 0,
    ''error'' \<mapsto> PStr ''[Errno 2] No such file or directory: java'']"
  by (simp add: host_without_java_def detect_openstego_def)

lemma example_confidence_loop: "confidence_loop (details_by_method host_without_java) (0, 0) = (1.456, 4)"
  by (simp add: example_details example_stegexpose example_openstego example_lsb_confidence)

lemma example_temp_file: "temp_file_fails host_without_java = None"
  by (simp add: host_without_java_def)

lemma example_lsb_no_error: "detect_lsb (lsb_outcome host_without_java) ''error'' = None"
  by (simp add: host_without_java_def detect_lsb_def Let_def)

lemma example_stegexpose_flag: "\<not> get_flag (detect_stegexpose (stegexpose_outcome host_without_java)) ''detected''"
  by (simp add: example_stegexpose get_flag_def)

lemma example_openstego_flag: "\<not> get_flag (detect_openstego (openstego_outcome host_without_java)) ''detected''"
  by (simp add: example_openstego get_flag_def)

lemma example_detection_loop: "detection_loop (details_by_method host_without_java) (False, []) = (True, [''lsb_analysis''])"
  by (simp add: example_details example_lsb_detected example_stegexpose_flag example_openstego_flag)


lemma detection_loop_fst:
  "fst (detection_loop ds (h, ms)) = (h \<or> list_ex (\<lambda>(m, r). get_flag r ''detected'') ds)"
proof (induction ds arbitrary: h ms)
  case Nil
  then show ?case by simp
next
  case (Cons d ds)
  obtain m r where d: "d = (m, r)" by (cases d)
  show ?case
    by (cases "get_flag r ''detected''") (simp_all add: d Cons.IH)
qed

lemma detect_lsb_error_safe:
  "detect_lsb outcome ''error'' \<noteq> None \<Longrightarrow>
     detect_lsb outcome ''detected'' = Some (PBool False)
     \<and> detect_lsb outcome ''confidence'' = Some (PNum 0)"
  by (cases outcome) (simp_all add: detect_lsb_def Let_def)

lemma detect_stegexpose_error_safe:
  "detect_stegexpose outcome ''error'' \<noteq> None \<Longrightarrow>
     detect_stegexpose outcome ''detected'' = Some (PBool False)
     \<and> detect_stegexpose outcome ''confidence'' = Some (PNum 0)"
  by (cases outcome) (simp_all add: detect_stegexpose_def Let_def split: prod.splits)

lemma detect_openstego_error_safe:
  "detect_openstego outcome ''error'' \<noteq> None \<Longrightarrow>
     detect_openstego outcome ''detected'' = Some (PBool False)
     \<and> detect_openstego outcome ''confidence'' = Some (PNum 0)"
  by (cases outcome) (simp_all add: detect_openstego_def Let_def)

lemma details_by_method_cases:
  "details_by_method f =
     [(''lsb_analysis'', detect_lsb (lsb_outcome f)),
      (''stegexpose'', detect_stegexpose (stegexpose_outcome f)),
      (''openstego'', detect_openstego (openstego_outcome f))]
   \<or> details_by_method f = [(''lsb_analysis'', detect_lsb (lsb_outcome f))]"
  by (simp add: details_by_method_def Let_def)

lemma errored_not_detected:
  assumes "(m, r) \<in> set (details_by_method f)" and "r ''error'' \<noteq> None"
  shows "\<not> get_flag r ''detected''"
proof -
  from assms(1) details_by_method_cases [of f]
  consider "r = detect_lsb (lsb_outcome f)"
    | "r = detect_stegexpose (stegexpose_outcome f)"
    | "r = detect_openstego (openstego_outcome f)"
    by auto
  then show ?thesis
  proof cases
    case 1
    with assms(2) detect_lsb_error_safe [of "lsb_outcome f"] show ?thesis
      by (simp add: get_flag_def)
  next
    case 2
    with assms(2) detect_stegexpose_error_safe [of "stegexpose_outcome f"] show ?thesis
      by (simp add: get_flag_def)
  next
    case 3
    with assms(2) detect_openstego_error_safe [of "openstego_outcome f"] show ?thesis
      by (simp add: get_flag_def)
  qed
qed

lemma aggregate_flag:
  assumes "temp_file_fails f = None"
  shows "detect_steganography f ''hasSteganography''
           = Some (PBool (spec_overall_detected (details_by_method f)))"
proof -
  have "list_ex (\<lambda>(m, r). get_flag r ''detected'') (details_by_method f)
          = spec_overall_detected (details_by_method f)"
    unfolding spec_overall_detected_def list_ex_iff
    using errored_not_detected [of _ _ f] by fastforce
  moreover have "detect_steganography f ''hasSteganography''
      = Some (PBool (fst (detection_loop (details_by_method f) (False, []))))"
    using assms by (simp add: detect_steganography_def Let_def split: prod.splits)
  ultimately show ?thesis
    by (simp add: detection_loop_fst)
qed

lemma aggregate_confidence:
  assumes "temp_file_fails f = None"
  shows "detect_steganography f ''confidence''
           = Some (PNum (let c = get_num (detect_lsb (lsb_outcome f)) ''confidence'' in
                if c < 0.8
                then (c * 2 + get_num (detect_stegexpose (stegexpose_outcome f)) ''confidence''
                        + get_num (detect_openstego (openstego_outcome f)) ''confidence'') / 4
                else c))"
proof -
  have l: "detect_lsb (lsb_outcome f) ''confidence''
             = Some (PNum (get_num (detect_lsb (lsb_outcome f)) ''confidence''))"
    by (simp add: detect_lsb_def get_num_def Let_def split: sum.splits)
  have s: "detect_stegexpose (stegexpose_outcome f) ''confidence''
             = Some (PNum (get_num (detect_stegexpose (stegexpose_outcome f)) ''confidence''))"
    by (simp add: detect_stegexpose_def get_num_def Let_def split: sum.splits prod.splits)
  have ope: "detect_openstego (openstego_outcome f) ''confidence''
             = Some (PNum (get_num (detect_openstego (openstego_outcome f)) ''confidence''))"
    by (simp add: detect_openstego_def get_num_def Let_def split: sum.splits)
  show ?thesis
  proof (cases "get_num (detect_lsb (lsb_outcome f)) ''confidence'' < 0.8")
    case True
    then have d: "details_by_method f =
       [(''lsb_analysis'', detect_lsb (lsb_outcome f)),
        (''stegexpose'', detect_stegexpose (stegexpose_outcome f)),
        (''openstego'', detect_openstego (openstego_outcome f))]"
      by (simp add: details_by_method_def)
    have "confidence_loop (details_by_method f) (0, 0)
        = (get_num (detect_lsb (lsb_outcome f)) ''confidence'' * 2
           + get_num (detect_stegexpose (stegexpose_outcome f)) ''confidence''
           + get_num (detect_openstego (openstego_outcome f)) ''confidence'', 4)"
      unfolding d by (simp add: l s ope)
    with assms True show ?thesis
      by (simp add: detect_steganography_def Let_def split: prod.splits)
  next
    case False
    then have d: "details_by_method f = [(''lsb_analysis'', detect_lsb (lsb_outcome f))]"
      by (simp add: details_by_method_def)
    have "confidence_loop (details_by_method f) (0, 0)
        = (get_num (detect_lsb (lsb_outcome f)) ''confidence'' * 2, 2)"
      unfolding d by (simp add: l)
    with assms False show ?thesis
      by (simp add: detect_steganography_def Let_def split: prod.splits)
  qed
qed

text \<open>
  C4. The overall flag is the disjunction of the flags of the sub-results that did
  not error (an errored sub-result never carries a positive flag). The overall
  confidence, however, is averaged over every sub-result that has a \<open>confidence\<close>
  key, and the three detectors put \<open>confidence = 0.0\<close> beside the \<open>error\<close> key of
  their error dictionaries: errored sub-results are not excluded. On the host without
  Java both external tools error, the LSB analysis alone reports 0.728, and the
  overall confidence is \<open>(2 * 0.728 + 0 + 0) / 4 = 0.364\<close>, where the weighted
  average of the non-errored sub-results is 0.728.
\<close>

theorem errored_tools_are_averaged_in:
  "detect_stegexpose (stegexpose_outcome host_without_java) ''error'' \<noteq> None
   \<and> detect_openstego (openstego_outcome host_without_java) ''error'' \<noteq> None
   \<and> detect_lsb (lsb_outcome host_without_java) ''error'' = None
   \<and> detect_steganography host_without_java ''confidence'' = Some (PNum 0.364)
   \<and> spec_overall_confidence (details_by_method host_without_java) = 0.728
   \<and> detect_steganography host_without_java ''hasSteganography'' = Some (PBool True)"
proof -
  have "detect_steganography host_without_java ''confidence'' = Some (PNum 0.364)"
    by (simp add: detect_steganography_def example_confidence_loop example_detection_loop
        example_temp_file Let_def)
  moreover have "detect_steganography host_without_java ''hasSteganography'' = Some (PBool True)"
    by (simp add: detect_steganography_def example_confidence_loop example_detection_loop
        example_temp_file Let_def)
  moreover have "spec_overall_confidence (details_by_method host_without_java) = 0.728"
    by (simp add: spec_overall_confidence_def example_details example_stegexpose
        example_openstego example_lsb_confidence_num example_lsb_no_error spec_weight_def Let_def)
  ultimately show ?thesis
    by (simp add: example_stegexpose example_openstego example_lsb_no_error)
qed


subsection \<open>Verdicts that carry an error\<close>

lemma analyze_audio_lsb_error_safe:
  "analyze_audio_lsb outcome ''error'' \<noteq> None \<Longrightarrow>
     analyze_audio_lsb outcome ''hasSteganography'' = Some (PBool False)
     \<and> analyze_audio_lsb outcome ''confidence'' = Some (PNum 0)"
  by (cases outcome) (simp_all add: analyze_audio_lsb_def Let_def split: prod.splits)

lemma analyze_video_error_safe:
  "analyze_video frames audio ''error'' \<noteq> None \<Longrightarrow>
     analyze_video frames audio ''hasSteganography'' = Some (PBool False)
     \<and> analyze_video frames audio ''confidence'' = Some (PNum 0)"
  by (cases "frames = []"; cases "frame_loop frames 0 [] []")
     (simp_all add: analyze_video_def Let_def split: prod.splits)

lemma analyze_image_error_safe:
  "analyze_image outcome ''hasSteganography'' = Some (PBool False)
     \<and> analyze_image outcome ''confidence'' = Some (PNum 0)"
  if "analyze_image outcome ''error'' \<noteq> None"
proof (cases outcome)
  case EmptyImage
  then show ?thesis by (simp add: analyze_image_def)
next
  case (Analysed a)
  show ?thesis
  proof (cases a)
    case (Inl e)
    with Analysed show ?thesis by (simp add: analyze_image_def)
  next
    case (Inr b)
    have "analyze_image (Analysed (Inr b)) ''error'' = None"
      by (simp add: analyze_image_def Let_def split: prod.splits)
    with Analysed Inr that show ?thesis by simp
  qed
qed

lemma detector_analyze_image_error_safe:
  "detector_analyze_image outcome ''error'' \<noteq> None \<Longrightarrow>
     detector_analyze_image outcome ''detected'' = Some (PBool False)
     \<and> detector_analyze_image outcome ''confidence'' = Some (PNum 0)"
  by (cases outcome) (simp_all add: detector_analyze_image_def Let_def)

lemma detect_media_steganography_error_safe:
  assumes "fst (detect_media_steganography str_lower file_data file_name) ''error'' \<noteq> None"
  shows "fst (detect_media_steganography str_lower file_data file_name) ''hasSteganography'' = Some (PBool False)
       \<and> fst (detect_media_steganography str_lower file_data file_name) ''confidence'' = Some (PNum 0)"
proof -
  let ?ext = "extension str_lower file_name"
  consider (audio) "?ext \<in> set AUDIO_EXTENSIONS"
    | (video) "?ext \<notin> set AUDIO_EXTENSIONS" "?ext \<in> set VIDEO_EXTENSIONS"
    | (image) "?ext \<notin> set AUDIO_EXTENSIONS" "?ext \<notin> set VIDEO_EXTENSIONS" "?ext \<in> set IMAGE_EXTENSIONS"
    | (unknown) "?ext \<notin> set AUDIO_EXTENSIONS" "?ext \<notin> set VIDEO_EXTENSIONS" "?ext \<notin> set IMAGE_EXTENSIONS"
    by blast
  then show ?thesis
  proof cases
    case audio
    with assms analyze_audio_lsb_error_safe [of "audio_outcome file_data"] show ?thesis
      by (cases "save_fails file_data") (simp_all add: detect_media_steganography_def Let_def)
  next
    case video
    with assms analyze_video_error_safe [of "video_frames file_data" "video_audio file_data"]
    show ?thesis
      by (cases "save_fails file_data") (simp_all add: detect_media_steganography_def Let_def)
  next
    case image
    with assms analyze_image_error_safe [of "image_result file_data"] show ?thesis
      by (simp add: detect_media_steganography_def Let_def)
  next
    case unknown
    then show ?thesis
      by (simp add: detect_media_steganography_def Let_def)
  qed
qed

lemma detect_steganography_error_safe:
  "detect_steganography f ''error'' \<noteq> None \<Longrightarrow>
     detect_steganography f ''hasSteganography'' = Some (PBool False)
     \<and> detect_steganography f ''confidence'' = Some (PNum 0)"
  by (cases "temp_file_fails f")
     (simp_all add: detect_steganography_def Let_def split: prod.splits)

lemma api_dict_error_safe:
  assumes "detect_steganography_in_media str_lower argv file_data print_fails = ReturnedDict d"
    and "d ''error'' \<noteq> None"
  shows "d ''hasSteganography'' = Some (PBool False) \<and> d ''confidence'' = Some (PNum 0)"
proof (cases file_data)
  case (Inl e)
  with assms show ?thesis
    by (auto simp add: detect_steganography_in_media_def Let_def split: if_splits)
next
  case (Inr m)
  show ?thesis
  proof (cases print_fails)
    case None
    with assms Inr
    have "d = fst (detect_media_steganography str_lower m (basename (argv ! 1)))"
      by (auto simp add: detect_steganography_in_media_def Let_def split: if_splits)
    with assms(2) detect_media_steganography_error_safe [of str_lower m "basename (argv ! 1)"]
    show ?thesis by simp
  next
    case (Some e)
    with assms Inr show ?thesis
      by (auto simp add: detect_steganography_in_media_def Let_def split: if_splits)
  qed
qed

text \<open>
  C7. The dictionaries returned by the analysis functions keep the convention: with
  an \<open>error\<close> key the flag is false and the confidence 0 (the lemmas above). The
  function called from the command line breaks it when the file path argument is
  missing: what it returns holds an \<open>error\<close> key and neither a flag nor a confidence.
\<close>

theorem missing_argument_reply_is_bare_error:
  "detect_steganography_in_media str_lower [''advanced_media_steganography.py''] file_data print_fails
     = ReturnedJson [''error'' \<mapsto> PStr ''Missing required argument: file path'']
   \<and> [''error'' \<mapsto> PStr ''Missing required argument: file path''] ''error'' \<noteq> None
   \<and> [''error'' \<mapsto> PStr ''Missing required argument: file path''] ''hasSteganography'' = None
   \<and> [''error'' \<mapsto> PStr ''Missing required argument: file path''] ''confidence'' = None"
  by (simp add: detect_steganography_in_media_def)

end
